theory Spec2Isabelle
  imports Complex_Main
begin

section \<open>rf-db-mailer: template rendering, filter pipeline, caches and send\<close>

text \<open>
  A shallow embedding of \<^verbatim>\<open>src/index.js\<close>. The module keeps its state in
  module-level variables (\<^verbatim>\<open>opts\<close>, \<^verbatim>\<open>translations\<close>, \<^verbatim>\<open>templates\<close>,
  \<^verbatim>\<open>subjects\<close>); the model passes them as a record. A thrown JavaScript exception is
  the \<open>Inl\<close> side of a sum. The three libraries the module calls (the mustache
  engine, the html-to-text converter and nodemailer) are parameters of the model.
  Strings are sequences of ASCII code units.
\<close>

subsection \<open>Values and exceptions\<close>

datatype jsval =
    Undefined
  | Null
  | Bool bool
  | Str string
  | Num rat
  | Arr "jsval list"
  | Obj "(string \<times> jsval) list"

datatype exn =
    TypeError string
  | SyntaxError string
  | EngineError string

text \<open>JavaScript truthiness of the values above (arrays and objects are always
  truthy).\<close>

fun truthy :: "jsval \<Rightarrow> bool" where
  "truthy Undefined = False"
| "truthy Null = False"
| "truthy (Bool b) = b"
| "truthy (Str s) = (s \<noteq> [])"
| "truthy (Num r) = (r \<noteq> 0)"
| "truthy (Arr vs) = True"
| "truthy (Obj kvs) = True"

subsection \<open>String primitives used by the filter parser\<close>

text \<open>The class \<^verbatim>\<open>\s\<close> and the characters \<^verbatim>\<open>String.prototype.trim\<close> strips, in ASCII:
  tab, line feed, vertical tab, form feed, carriage return and space.\<close>

definition is_space :: "char \<Rightarrow> bool" where
  "is_space c = (c \<in> set [CHR 0x09, CHR 0x0A, CHR 0x0B, CHR 0x0C, CHR 0x0D, CHR 0x20])"

definition is_digit :: "char \<Rightarrow> bool" where
  "is_digit c = (c \<in> set ''0123456789'')"

text \<open>The characters the regular-expression dot does not match.\<close>

definition is_line_terminator :: "char \<Rightarrow> bool" where
  "is_line_terminator c = (c = CHR 0x0A \<or> c = CHR 0x0D)"

definition is_quote :: "char \<Rightarrow> bool" where
  "is_quote c = (c = CHR 0x27 \<or> c = CHR 0x22)"

definition trim :: "string \<Rightarrow> string" where
  "trim s = rev (dropWhile is_space (rev (dropWhile is_space s)))"

text \<open>\<^verbatim>\<open>s.split(c)\<close> for a one-character separator: never empty, \<^verbatim>\<open>"".split(c)\<close> is
  \<^verbatim>\<open>[""]\<close>.\<close>

fun split_on :: "char \<Rightarrow> string \<Rightarrow> string list" where
  "split_on c [] = [[]]"
| "split_on c (x # xs) =
     (if x = c then [] # split_on c xs
      else (case split_on c xs of [] \<Rightarrow> [[x]] | y # ys \<Rightarrow> (x # y) # ys))"

text \<open>\<^verbatim>\<open>segs.join(c)\<close>, used to write token bodies from their segments.\<close>

fun join_with :: "char \<Rightarrow> string list \<Rightarrow> string" where
  "join_with c [] = []"
| "join_with c [s] = s"
| "join_with c (s # t # ss) = s @ c # join_with c (t # ss)"

definition digit_val :: "char \<Rightarrow> int" where
  "digit_val c = int (of_char c) - 48"

definition dec_val :: "string \<Rightarrow> int" where
  "dec_val ds = foldl (\<lambda>a c. 10 * a + digit_val c) 0 ds"

text \<open>The optional sign \<^verbatim>\<open>[+-]?\<close> at the start of a numeric literal.\<close>

definition strip_sign :: "string \<Rightarrow> string" where
  "strip_sign p =
     (case p of [] \<Rightarrow> []
      | c # r \<Rightarrow> if c = CHR ''+'' \<or> c = CHR ''-'' then r else p)"

definition is_negative :: "string \<Rightarrow> bool" where
  "is_negative p = (case p of [] \<Rightarrow> False | c # r \<Rightarrow> c = CHR ''-'')"

subsection \<open>parseParam\<close>

text \<open>\<^verbatim>\<open>/^['"](.*)['"]$/\<close>: a quote, any characters but line terminators, a quote, then
  the end of the input. The two quotes need not be the same character.\<close>

definition isString :: "string \<Rightarrow> bool" where
  "isString p =
     (2 \<le> length p \<and> is_quote (hd p) \<and> is_quote (last p)
      \<and> list_all (\<lambda>c. \<not> is_line_terminator c) (butlast (tl p)))"

text \<open>\<^verbatim>\<open>/^[+-]?\d+$/\<close>\<close>

definition isInteger :: "string \<Rightarrow> bool" where
  "isInteger p = (strip_sign p \<noteq> [] \<and> list_all is_digit (strip_sign p))"

text \<open>\<^verbatim>\<open>/^[+-]?\d*\.\d+$/\<close>\<close>

definition isFloat :: "string \<Rightarrow> bool" where
  "isFloat p =
     (let r = dropWhile is_digit (strip_sign p)
      in r \<noteq> [] \<and> hd r = CHR ''.'' \<and> tl r \<noteq> [] \<and> list_all is_digit (tl r))"

text \<open>\<^verbatim>\<open>parseInt(p, 10)\<close> and \<^verbatim>\<open>parseFloat(p)\<close> on the strings the two expressions
  above accept: the decimal value of the literal, with its sign. (JavaScript then
  stores the nearest double.)\<close>

definition parseInt :: "string \<Rightarrow> int" where
  "parseInt p = (if is_negative p then - dec_val (strip_sign p) else dec_val (strip_sign p))"

definition parseFloat :: "string \<Rightarrow> rat" where
  "parseFloat p =
     (let ip = takeWhile is_digit (strip_sign p);
          fp = tl (dropWhile is_digit (strip_sign p));
          m = of_int (dec_val ip) + of_int (dec_val fp) / 10 ^ length fp
      in if is_negative p then - m else m)"

definition parseParam :: "string \<Rightarrow> (string \<Rightarrow> exn + jsval) \<Rightarrow> exn + jsval" where
  "parseParam param lookup =
     (if isString param then Inr (Str (butlast (tl param)))
      else if isInteger param then Inr (Num (of_int (parseInt param)))
      else if isFloat param then Inr (Num (parseFloat param))
      else lookup param)"

subsection \<open>applyFilter\<close>

text \<open>
  \<^verbatim>\<open>filterExp = /^\s*([^:]+)/g\<close>, executed once on a fresh expression object: the
  result is the first group, or \<open>None\<close> for \<^verbatim>\<open>null\<close>. The white space is taken
  greedily; when nothing but a colon or the end follows it, the matcher gives the
  last white-space character back to the group.
\<close>

definition filterExp_exec :: "string \<Rightarrow> string option" where
  "filterExp_exec fltr =
     (let ws = takeWhile is_space fltr;
          g = takeWhile (\<lambda>c. c \<noteq> CHR '':'') (dropWhile is_space fltr)
      in if g \<noteq> [] then Some g
         else if ws \<noteq> [] then Some [last ws]
         else None)"

text \<open>
  \<^verbatim>\<open>paramsExp = /:\s*(['][^']*[']|["][^"]*["]|[^:]+)\s*/g\<close>. \<open>paramsExp_at s\<close> tries
  a match whose colon has just been read, \<open>s\<close> being the text after it: the result
  is the first group and the text left after the whole match. The alternatives are
  tried in the order of the expression.
\<close>

definition paramsExp_at :: "string \<Rightarrow> (string \<times> string) option" where
  "paramsExp_at s =
     (let ws = takeWhile is_space s; rest = dropWhile is_space s
      in case rest of
           [] \<Rightarrow> if ws = [] then None else Some ([last ws], [])
         | c # cs \<Rightarrow>
             if c = CHR '':'' then (if ws = [] then None else Some ([last ws], rest))
             else if c = CHR 0x27 \<and> dropWhile (\<lambda>d. d \<noteq> CHR 0x27) cs \<noteq> [] then
               Some (c # takeWhile (\<lambda>d. d \<noteq> CHR 0x27) cs @ [CHR 0x27],
                     dropWhile is_space (tl (dropWhile (\<lambda>d. d \<noteq> CHR 0x27) cs)))
             else if c = CHR 0x22 \<and> dropWhile (\<lambda>d. d \<noteq> CHR 0x22) cs \<noteq> [] then
               Some (c # takeWhile (\<lambda>d. d \<noteq> CHR 0x22) cs @ [CHR 0x22],
                     dropWhile is_space (tl (dropWhile (\<lambda>d. d \<noteq> CHR 0x22) cs)))
             else Some (takeWhile (\<lambda>d. d \<noteq> CHR '':'') rest,
                        dropWhile (\<lambda>d. d \<noteq> CHR '':'') rest))"

lemma length_dropWhile_le_aux: "length (dropWhile P xs) \<le> length xs"
  by (induction xs) auto

lemma length_dropWhile_tl_aux:
  "length (dropWhile P (tl (dropWhile Q cs))) \<le> length cs"
proof -
  have "length (dropWhile P (tl (dropWhile Q cs))) \<le> length (tl (dropWhile Q cs))"
    by (rule length_dropWhile_le_aux)
  also have "\<dots> \<le> length (dropWhile Q cs)" by simp
  also have "\<dots> \<le> length cs" by (rule length_dropWhile_le_aux)
  finally show ?thesis .
qed

lemma paramsExp_at_shorter:
  "paramsExp_at s = Some (g, s') \<Longrightarrow> length s' \<le> length s"
proof -
  assume a: "paramsExp_at s = Some (g, s')"
  show ?thesis
  proof (cases "dropWhile is_space s")
    case Nil
    with a show ?thesis by (auto simp: paramsExp_at_def Let_def split: if_splits)
  next
    case (Cons c cs)
    have le: "length (c # cs) \<le> length s"
      using length_dropWhile_le_aux [of is_space s] Cons by simp
    have r: "length (dropWhile (\<lambda>d. d \<noteq> CHR '':'') (c # cs)) \<le> length s"
      using length_dropWhile_le_aux [of "\<lambda>d. d \<noteq> CHR '':''" "c # cs"] le by linarith
    have q1: "length (dropWhile is_space (tl (dropWhile (\<lambda>d. d \<noteq> CHR 0x27) cs))) \<le> length s"
      using length_dropWhile_tl_aux [of is_space "\<lambda>d. d \<noteq> CHR 0x27" cs] le by simp
    have q2: "length (dropWhile is_space (tl (dropWhile (\<lambda>d. d \<noteq> CHR 0x22) cs))) \<le> length s"
      using length_dropWhile_tl_aux [of is_space "\<lambda>d. d \<noteq> CHR 0x22" cs] le by simp
    have d: "length (dropWhile is_space s) \<le> length s"
      by (rule length_dropWhile_le_aux)
    from a Cons r q1 q2 le d show ?thesis
      by (auto simp: paramsExp_at_def Let_def length_dropWhile_le_aux split: if_splits
          simp del: dropWhile.simps)
  qed
qed

text \<open>The \<^verbatim>\<open>while ((match = paramsExp.exec(fltr)))\<close> loop: the first groups of the
  successive matches, each search starting where the previous match ended.\<close>

function paramsExp_matches :: "string \<Rightarrow> string list" where
  "paramsExp_matches [] = []"
| "paramsExp_matches (c # s) =
     (if c = CHR '':'' then
        (case paramsExp_at s of
           Some (g, s') \<Rightarrow> g # paramsExp_matches s'
         | None \<Rightarrow> paramsExp_matches s)
      else paramsExp_matches s)"
  by pat_completeness auto
termination
  by (relation "measure length") (auto dest: paramsExp_at_shorter)

text \<open>The registered filters, \<^verbatim>\<open>Mustache.Formatters\<close>: a filter receives the
  expression value followed by its parameters and may throw.\<close>

type_synonym formatters = "string \<rightharpoonup> (jsval list \<Rightarrow> exn + jsval)"

text \<open>The parameters pushed by the loop, in order; a throwing lookup ends it.\<close>

fun parseParams :: "string list \<Rightarrow> (string \<Rightarrow> exn + jsval) \<Rightarrow> exn + jsval list" where
  "parseParams [] lookup = Inr []"
| "parseParams (m # ms) lookup =
     (case parseParam (trim m) lookup of
        Inl e \<Rightarrow> Inl e
      | Inr v \<Rightarrow> (case parseParams ms lookup of
                    Inl e \<Rightarrow> Inl e
                  | Inr vs \<Rightarrow> Inr (v # vs)))"

text \<open>\<^verbatim>\<open>match[1]\<close> of a \<^verbatim>\<open>null\<close> match throws a TypeError before any parameter is
  read; the registry is consulted after the parameters have been parsed.\<close>

definition applyFilter ::
  "formatters \<Rightarrow> jsval \<Rightarrow> string \<Rightarrow> (string \<Rightarrow> exn + jsval) \<Rightarrow> exn + jsval" where
  "applyFilter Formatters expr fltr lookup =
     (case filterExp_exec fltr of
        None \<Rightarrow> Inl (TypeError ''Cannot read property 1 of null'')
      | Some g \<Rightarrow>
          let filter = trim g in
          (case parseParams (paramsExp_matches fltr) lookup of
             Inl e \<Rightarrow> Inl e
           | Inr params \<Rightarrow>
               (case Formatters filter of
                  Some f \<Rightarrow> f (expr # params)
                | None \<Rightarrow> Inr expr)))"

subsection \<open>parseExpression\<close>

text \<open>The \<^verbatim>\<open>for\<close> loop over the formatters.\<close>

fun applyFilters ::
  "formatters \<Rightarrow> jsval \<Rightarrow> string list \<Rightarrow> (string \<Rightarrow> exn + jsval) \<Rightarrow> exn + jsval" where
  "applyFilters Formatters expression [] lookup = Inr expression"
| "applyFilters Formatters expression (f # fs) lookup =
     (case applyFilter Formatters expression f lookup of
        Inl e \<Rightarrow> Inl e
      | Inr v \<Rightarrow> applyFilters Formatters v fs lookup)"

text \<open>The next lemmas tell the definition of \<open>parseExpression\<close> on which names the
  loop calls the lookup it is given, and that these names hold no \<^verbatim>\<open>|\<close>.\<close>

lemma parseParams_ext:
  "(\<And>m. m \<in> set ms \<Longrightarrow> lookup (trim m) = lookup' (trim m))
   \<Longrightarrow> parseParams ms lookup = parseParams ms lookup'"
proof (induction ms)
  case Nil
  show ?case by simp
next
  case (Cons m ms)
  have a: "parseParam (trim m) lookup = parseParam (trim m) lookup'"
    by (simp add: parseParam_def Cons.prems)
  have b: "parseParams ms lookup = parseParams ms lookup'"
    by (rule Cons.IH) (simp add: Cons.prems)
  show ?case by (simp only: parseParams.simps a b)
qed

lemma applyFilter_ext:
  "(\<And>m. m \<in> set (paramsExp_matches fltr) \<Longrightarrow> lookup (trim m) = lookup' (trim m))
   \<Longrightarrow> applyFilter F expr fltr lookup = applyFilter F expr fltr lookup'"
proof -
  assume "\<And>m. m \<in> set (paramsExp_matches fltr) \<Longrightarrow> lookup (trim m) = lookup' (trim m)"
  then have "parseParams (paramsExp_matches fltr) lookup
      = parseParams (paramsExp_matches fltr) lookup'"
    by (rule parseParams_ext)
  then show ?thesis by (simp only: applyFilter_def)
qed

lemma applyFilters_ext:
  "(\<And>f m. f \<in> set fs \<Longrightarrow> m \<in> set (paramsExp_matches f)
         \<Longrightarrow> lookup (trim m) = lookup' (trim m))
   \<Longrightarrow> applyFilters F expr fs lookup = applyFilters F expr fs lookup'"
proof (induction fs arbitrary: expr)
  case Nil
  show ?case by simp
next
  case (Cons f fs)
  have a: "applyFilter F expr f lookup = applyFilter F expr f lookup'"
    by (rule applyFilter_ext) (rule Cons.prems [of f], simp_all)
  have b: "\<And>e. applyFilters F e fs lookup = applyFilters F e fs lookup'"
  proof (rule Cons.IH)
    fix e g m
    assume "g \<in> set fs" and "m \<in> set (paramsExp_matches g)"
    then show "lookup (trim m) = lookup' (trim m)"
      using Cons.prems [of g m] by simp
  qed
  show ?case by (simp only: applyFilters.simps a b)
qed

lemma applyFilters_cong [fundef_cong]:
  "F = F' \<Longrightarrow> expr = expr' \<Longrightarrow> fs = fs'
   \<Longrightarrow> (\<And>f m. f \<in> set fs' \<Longrightarrow> m \<in> set (paramsExp_matches f)
         \<Longrightarrow> lookup (trim m) = lookup' (trim m))
   \<Longrightarrow> applyFilters F expr fs lookup = applyFilters F' expr' fs' lookup'"
  using applyFilters_ext [of fs' lookup lookup' F' expr'] by simp

lemma split_on_nonempty: "split_on c s \<noteq> []"
  by (induction s) (auto split: list.splits)

lemma split_on_no_sep: "f \<in> set (split_on c s) \<Longrightarrow> c \<notin> set f"
proof (induction s arbitrary: f)
  case Nil
  then show ?case by simp
next
  case (Cons x xs)
  have ne: "split_on c xs \<noteq> []" by (rule split_on_nonempty)
  then obtain y ys where y: "split_on c xs = y # ys" by (cases "split_on c xs") auto
  show ?case
  proof (cases "x = c")
    case True
    with Cons show ?thesis by auto
  next
    case False
    with Cons.prems y have "f = x # y \<or> f \<in> set ys" by simp
    then show ?thesis
      using Cons.IH [of y] Cons.IH [of f] y False by auto
  qed
qed

lemma length_split_on: "length (split_on c s) = Suc (count_list s c)"
proof (induction s)
  case Nil
  show ?case by simp
next
  case (Cons x xs)
  have "split_on c xs \<noteq> []" by (rule split_on_nonempty)
  then show ?case using Cons.IH by (auto split: list.splits)
qed

lemma in_set_tl_aux: "x \<in> set (tl xs) \<Longrightarrow> x \<in> set xs"
  by (cases xs) auto

lemma set_dropWhile_subset_aux: "set (dropWhile P xs) \<subseteq> set xs"
  by (induction xs) auto

lemma set_trim_subset: "set (trim m) \<subseteq> set m"
proof -
  have "set (trim m) = set (dropWhile is_space (rev (dropWhile is_space m)))"
    by (simp add: trim_def)
  also have "\<dots> \<subseteq> set (rev (dropWhile is_space m))"
    by (rule set_dropWhile_subset_aux)
  also have "\<dots> \<subseteq> set m"
    using set_dropWhile_subset_aux [of is_space m] by simp
  finally show ?thesis .
qed

lemma paramsExp_at_subset:
  assumes "paramsExp_at s = Some (g, s')"
  shows "set g \<subseteq> set s" and "set s' \<subseteq> set s"
proof -
  have ws: "takeWhile is_space s \<noteq> [] \<Longrightarrow> last (takeWhile is_space s) \<in> set s"
    using last_in_set [of "takeWhile is_space s"] set_takeWhileD by fastforce
  have both: "set g \<subseteq> set s \<and> set s' \<subseteq> set s"
  proof (cases "dropWhile is_space s")
    case Nil
    with assms ws show ?thesis
      by (auto simp: paramsExp_at_def Let_def split: if_splits)
  next
    case (Cons c cs)
    have sub: "set (c # cs) \<subseteq> set s"
      using set_dropWhile_subset_aux [of is_space s] Cons by simp
    have tk: "\<And>P. set (takeWhile P cs) \<subseteq> set s"
      using sub set_takeWhileD by fastforce
    have dr: "\<And>P Q. set (dropWhile P (tl (dropWhile Q cs))) \<subseteq> set s"
    proof
      fix P Q x
      assume "x \<in> set (dropWhile P (tl (dropWhile Q cs)))"
      then have "x \<in> set (tl (dropWhile Q cs))" by (rule set_dropWhileD)
      then have "x \<in> set (dropWhile Q cs)" by (rule in_set_tl_aux)
      then have "x \<in> set cs" by (rule set_dropWhileD)
      then show "x \<in> set s" using sub by auto
    qed
    have tk2: "\<And>P. set (takeWhile P (c # cs)) \<subseteq> set s"
      using sub set_takeWhileD by fastforce
    have dr2: "\<And>P. set (dropWhile P (c # cs)) \<subseteq> set s"
      using sub set_dropWhileD by fastforce
    have c: "c \<in> set s" using sub by simp
    show ?thesis
    proof (cases "c = CHR '':''")
      case True
      with assms Cons ws sub show ?thesis
        by (auto simp: paramsExp_at_def Let_def split: if_splits dest: set_dropWhileD)
    next
      case False
      note nc = this
      show ?thesis
      proof (cases "c = CHR 0x27 \<and> dropWhile (\<lambda>d. d \<noteq> CHR 0x27) cs \<noteq> []")
        case True
        with assms Cons nc have
          "g = c # takeWhile (\<lambda>d. d \<noteq> CHR 0x27) cs @ [CHR 0x27]"
          "s' = dropWhile is_space (tl (dropWhile (\<lambda>d. d \<noteq> CHR 0x27) cs))"
          by (simp_all add: paramsExp_at_def Let_def)
        with True c tk [of "\<lambda>d. d \<noteq> CHR 0x27"] dr [of is_space "\<lambda>d. d \<noteq> CHR 0x27"]
        show ?thesis by auto
      next
        case False
        note nq = this
        show ?thesis
        proof (cases "c = CHR 0x22 \<and> dropWhile (\<lambda>d. d \<noteq> CHR 0x22) cs \<noteq> []")
          case True
          with assms Cons nc nq have
            "g = c # takeWhile (\<lambda>d. d \<noteq> CHR 0x22) cs @ [CHR 0x22]"
            "s' = dropWhile is_space (tl (dropWhile (\<lambda>d. d \<noteq> CHR 0x22) cs))"
            by (simp_all add: paramsExp_at_def Let_def)
          with True c tk [of "\<lambda>d. d \<noteq> CHR 0x22"] dr [of is_space "\<lambda>d. d \<noteq> CHR 0x22"]
          show ?thesis by auto
        next
          case False
          with assms Cons nc nq have
            "g = takeWhile (\<lambda>d. d \<noteq> CHR '':'') (c # cs)"
            "s' = dropWhile (\<lambda>d. d \<noteq> CHR '':'') (c # cs)"
            by (auto simp add: paramsExp_at_def Let_def simp del: takeWhile.simps dropWhile.simps
                split: if_splits)
          with tk2 [of "\<lambda>d. d \<noteq> CHR '':''"] dr2 [of "\<lambda>d. d \<noteq> CHR '':''"]
          show ?thesis by simp
        qed
      qed
    qed
  qed
  from both show "set g \<subseteq> set s" and "set s' \<subseteq> set s" by simp_all
qed

lemma paramsExp_matches_subset:
  "m \<in> set (paramsExp_matches f) \<Longrightarrow> set m \<subseteq> set f"
proof (induction f arbitrary: m rule: paramsExp_matches.induct)
  case 1
  then show ?case by simp
next
  case (2 c s)
  show ?case
  proof (cases "c = CHR '':''")
    case False
    with 2 show ?thesis by auto
  next
    case True
    show ?thesis
    proof (cases "paramsExp_at s")
      case None
      with 2 True show ?thesis by auto
    next
      case (Some p)
      obtain g s' where p: "p = (g, s')" by (cases p)
      from 2 True Some p have "m = g \<or> m \<in> set (paramsExp_matches s')" by simp
      then show ?thesis
      proof
        assume "m = g"
        then show ?thesis using paramsExp_at_subset(1) [of s g s'] Some p by auto
      next
        assume "m \<in> set (paramsExp_matches s')"
        then have "set m \<subseteq> set s'"
          using "2.IH"(2) [OF True Some p [symmetric]] by simp
        then show ?thesis using paramsExp_at_subset(2) [of s g s'] Some p by auto
      qed
    qed
  qed
qed

text \<open>
  The replacement for \<^verbatim>\<open>Context.prototype.lookup\<close>. \<open>lookup0\<close> is the engine's own lookup
  (the saved \<^verbatim>\<open>lookup\<close>) on the current context; the lookup handed to \<^verbatim>\<open>applyFilter\<close>
  is the replacement itself, \<^verbatim>\<open>this.lookup.bind(this)\<close>. The recursion ends because a
  parameter is cut from a segment, and a segment holds no \<^verbatim>\<open>|\<close>.

  \<^verbatim>\<open>getTemplate\<close> calls \<^verbatim>\<open>mustacheWax\<close> on every call, so the replacement is installed
  again each time, around the one installed before. A wrapped replacement is only
  ever given the trimmed first segment, which holds no \<^verbatim>\<open>|\<close>; on such a name it
  returns what the engine's own lookup returns (lemma \<open>parseExpression_path\<close> below).
  The model therefore has one layer.
\<close>

function parseExpression :: "formatters \<Rightarrow> (string \<Rightarrow> jsval) \<Rightarrow> string \<Rightarrow> exn + jsval" where
  "parseExpression Formatters lookup0 name =
     (let formatters = split_on CHR ''|'' name;
          expression = trim (hd formatters)
      in applyFilters Formatters (lookup0 expression) (tl formatters)
           (parseExpression Formatters lookup0))"
  by pat_completeness auto
termination
proof (relation "measure (\<lambda>(F, l, n). count_list n CHR ''|'')")
  show "wf (measure (\<lambda>(F, l, n). count_list n CHR ''|''))" by simp
next
  fix Formatters :: formatters and lookup0 :: "string \<Rightarrow> jsval"
    and name :: string and formatters expression f m
  assume fs: "formatters = split_on CHR ''|'' name"
    and f: "f \<in> set (tl formatters)" and m: "m \<in> set (paramsExp_matches f)"
  have "f \<in> set (split_on CHR ''|'' name)"
    using f fs by (simp add: in_set_tl_aux)
  then have "CHR ''|'' \<notin> set f" by (rule split_on_no_sep)
  then have "CHR ''|'' \<notin> set (trim m)"
    using paramsExp_matches_subset [OF m] set_trim_subset [of m] by auto
  then have 0: "count_list (trim m) CHR ''|'' = 0" by (simp add: count_list_0_iff)
  have "tl (split_on CHR ''|'' name) \<noteq> []" using f fs by auto
  then have "2 \<le> length (split_on CHR ''|'' name)"
    by (cases "split_on CHR ''|'' name") (auto simp: Suc_le_eq)
  then have "0 < count_list name CHR ''|''"
    by (simp add: length_split_on)
  with 0 show "((Formatters, lookup0, trim m), (Formatters, lookup0, name))
      \<in> measure (\<lambda>(F, l, n). count_list n CHR ''|'')"
    by simp
qed

declare parseExpression.simps [simp del]

subsection \<open>Module state\<close>

text \<open>
  \<^verbatim>\<open>opts\<close> is \<^verbatim>\<open>{}\<close> until \<^verbatim>\<open>start\<close> has run with a transporter, so each of its fields
  may be undefined (\<open>None\<close>). The transporter configuration is plain JSON data of
  some type \<open>'cfg\<close>.
\<close>

record 'cfg options =
  defaultLanguage :: "string option"
  transporter :: "'cfg option"
  mustacheFormatter :: "formatters option"

text \<open>
  The three caches are JavaScript arrays used as dictionaries. Reading a name that
  was never written gives \<^verbatim>\<open>undefined\<close>: \<open>Undefined\<close> for a translation bundle,
  \<open>None\<close> for a text. Names are taken among the keys the module writes itself;
  members an array inherits (\<^verbatim>\<open>length\<close>, \<^verbatim>\<open>constructor\<close>, ...) are outside the model.
\<close>

text \<open>(\<open>translation_cache\<close> is the variable \<^verbatim>\<open>translations\<close>, \<open>plaintext\<close> below the
  property \<^verbatim>\<open>text\<close>: both words are reserved in theory files.)\<close>

record 'cfg state =
  opts :: "'cfg options"
  translation_cache :: "string \<Rightarrow> jsval"
  templates :: "string \<Rightarrow> string option"
  subjects :: "string \<Rightarrow> string option"

datatype log_entry = LogError string | LogInfo string | LogSuccess string

text \<open>Truthiness of an optional string, and \<^verbatim>\<open>a || b\<close> on two of them.\<close>

definition truthy_str :: "string option \<Rightarrow> bool" where
  "truthy_str a = (case a of None \<Rightarrow> False | Some s \<Rightarrow> s \<noteq> [])"

definition or_else :: "string option \<Rightarrow> string option \<Rightarrow> string option" where
  "or_else a b = (if truthy_str a then a else b)"

subsection \<open>start\<close>

record 'cfg start_options =
  so_defaultLanguage :: "string option"
  so_transporter :: "'cfg option"
  so_mustacheFormatter :: "formatters option"

text \<open>Without a transporter \<^verbatim>\<open>start\<close> logs and returns; \<^verbatim>\<open>opts\<close> stays as it was.
  The reload it triggers is the pair of fetch handlers below.\<close>

definition start :: "'cfg start_options \<Rightarrow> 'cfg state \<Rightarrow> log_entry list \<times> 'cfg state" where
  "start options st =
     (case so_transporter options of
        None \<Rightarrow> ([LogError ''no transporter defined, aborting''], st)
      | Some t \<Rightarrow>
          ([], st\<lparr>opts := \<lparr>
                 defaultLanguage =
                   (if truthy_str (so_defaultLanguage options) then so_defaultLanguage options
                    else Some ''de''),
                 transporter = Some t,
                 mustacheFormatter =
                   (case so_mustacheFormatter options of
                      None \<Rightarrow> Some Map.empty
                    | Some F \<Rightarrow> Some F)\<rparr>\<rparr>))"

subsection \<open>reloadTemplates, getTranslations, getTemplates\<close>

record translation_doc =
  tr_lang :: string
  tr_keys :: jsval

record template_doc =
  doc_name :: string
  doc_text :: "string option"
  doc_subject :: "string option"

text \<open>What the database hands to the \<^verbatim>\<open>exec\<close> handler: an error, or a list of
  documents that may be \<^verbatim>\<open>null\<close>.\<close>

datatype 'a fetch = FetchFailed string | Fetched "'a list option"

text \<open>How a handler ends: normally, by calling the callback with the error, or by
  throwing.\<close>

datatype handler_result = Completed | CalledBack string | Threw exn

definition docs_or_empty :: "'a list option \<Rightarrow> 'a list" where
  "docs_or_empty docs = (case docs of None \<Rightarrow> [] | Some l \<Rightarrow> l)"

text \<open>The handler of \<^verbatim>\<open>getTranslations\<close>. The first argument tells whether a callback
  was passed; calling an undefined callback throws a TypeError.\<close>

definition getTranslations ::
  "bool \<Rightarrow> translation_doc fetch \<Rightarrow> 'cfg state \<Rightarrow> handler_result \<times> log_entry list \<times> 'cfg state" where
  "getTranslations callback res st =
     (case res of
        FetchFailed err \<Rightarrow>
          (if callback then CalledBack err
           else Threw (TypeError ''callback is not a function''),
           [LogError err], st)
      | Fetched translationsList \<Rightarrow>
          (Completed, [],
           st\<lparr>translation_cache :=
                foldl (\<lambda>m translation. m(tr_lang translation := tr_keys translation))
                  (translation_cache st) (docs_or_empty translationsList)\<rparr>))"

definition getTemplates ::
  "bool \<Rightarrow> template_doc fetch \<Rightarrow> 'cfg state \<Rightarrow> handler_result \<times> log_entry list \<times> 'cfg state" where
  "getTemplates callback res st =
     (case res of
        FetchFailed err \<Rightarrow>
          (if callback then CalledBack err
           else Threw (TypeError ''callback is not a function''),
           [LogError err], st)
      | Fetched docs \<Rightarrow>
          (Completed, [],
           foldl (\<lambda>s template.
                    s\<lparr>templates := (templates s)(doc_name template := doc_text template),
                      subjects := (subjects s)(doc_name template := doc_subject template)\<rparr>)
             st (docs_or_empty docs)))"

text \<open>\<^verbatim>\<open>reloadTemplates\<close> starts both fetches and passes no callback to either. The
  two handlers write different caches, so the order in which they run does not
  matter for the state; the model runs them in the order of the calls.\<close>

record 'cfg reload_result =
  translations_handler :: handler_result
  templates_handler :: handler_result
  reload_log :: "log_entry list"
  reload_state :: "'cfg state"

definition reloadTemplates ::
  "translation_doc fetch \<Rightarrow> template_doc fetch \<Rightarrow> 'cfg state \<Rightarrow> 'cfg reload_result" where
  "reloadTemplates translations_res templates_res st =
     (case getTranslations False translations_res st of
        (r1, l1, st1) \<Rightarrow>
          (case getTemplates False templates_res st1 of
             (r2, l2, st2) \<Rightarrow>
               \<lparr>translations_handler = r1, templates_handler = r2,
                reload_log = l1 @ l2, reload_state = st2\<rparr>))"

subsection \<open>getTemplate\<close>

record templateOps =
  t_name :: string
  t_language :: "string option"
  t_data :: jsval

record compileData =
  cd_data :: jsval
  cd_lang :: jsval
  cd_templates :: "string \<Rightarrow> string option"

text \<open>The \<^verbatim>\<open>message\<close> object \<^verbatim>\<open>getTemplate\<close> builds; it starts as \<^verbatim>\<open>{}\<close>.\<close>

record message =
  subject :: "string option"
  html :: "string option"
  plaintext :: "string option"

text \<open>\<^verbatim>\<open>mustache.render\<close> with the replaced lookup and the given filters: a parameter.
  It may throw (an unclosed tag, a throwing filter).\<close>

type_synonym engine = "formatters \<Rightarrow> string \<Rightarrow> compileData \<Rightarrow> exn + string"

datatype getTemplate_result =
    NoCallback
  | CallbackError string
  | CallbackMessage message
  | Thrown exn

text \<open>Lines 121 to 136: the language and its bundle.\<close>

definition resolve_lang :: "'cfg state \<Rightarrow> templateOps \<Rightarrow> jsval \<times> log_entry list" where
  "resolve_lang st templateOps =
     (let lang = (if truthy_str (t_language templateOps) then the (t_language templateOps)
                  else if truthy_str (defaultLanguage (opts st))
                       then the (defaultLanguage (opts st))
                  else ''de'');
          translation = translation_cache st lang
      in if lang \<noteq> [] \<and> truthy translation then (translation, [])
         else if truthy_str (defaultLanguage (opts st)) then
           (translation_cache st (the (defaultLanguage (opts st))),
            [LogInfo ''no language found, switching to default''])
         else (Undefined, [LogInfo ''no language defined'']))"

definition compile_data :: "'cfg state \<Rightarrow> templateOps \<Rightarrow> compileData" where
  "compile_data st templateOps =
     \<lparr>cd_data = t_data templateOps,
      cd_lang = fst (resolve_lang st templateOps),
      cd_templates = templates st\<rparr>"

definition formatters_of :: "'cfg state \<Rightarrow> formatters" where
  "formatters_of st =
     (case mustacheFormatter (opts st) of None \<Rightarrow> Map.empty | Some F \<Rightarrow> F)"

text \<open>Lines 173 and 174: plain text from the html, when there is html.\<close>

definition add_text :: "(string \<Rightarrow> string) \<Rightarrow> message \<Rightarrow> message" where
  "add_text htmlToText message =
     (if \<not> truthy_str (plaintext message) \<and> truthy_str (html message)
      then message\<lparr>plaintext := Some (htmlToText (the (html message)))\<rparr>
      else message)"

definition getTemplate ::
  "engine \<Rightarrow> (string \<Rightarrow> string) \<Rightarrow> 'cfg state \<Rightarrow> templateOps option \<Rightarrow> bool
   \<Rightarrow> getTemplate_result \<times> log_entry list" where
  "getTemplate render htmlToText st templateOps callback =
     (if \<not> callback then
        (NoCallback, [LogError ''no callback defined'', LogError ''no callback defined''])
      else
        (case templateOps of
           None \<Rightarrow> (CallbackError ''no template defined'', [LogError ''no template defined''])
         | Some ops \<Rightarrow>
            (let tmplName = t_name ops;
                 template = templates st tmplName;
                 lg = snd (resolve_lang st ops);
                 compileData = compile_data st ops;
                 Formatters = formatters_of st;
                 message = \<lparr>subject = None, html = None, plaintext = None\<rparr>;
                 with_subject =
                   (if truthy_str (subjects st tmplName) then
                      (case render Formatters (the (subjects st tmplName)) compileData of
                         Inl e \<Rightarrow> Inl e
                       | Inr s1 \<Rightarrow>
                           (case render Formatters s1 compileData of
                              Inl e \<Rightarrow> Inl e
                            | Inr s2 \<Rightarrow> Inr (message\<lparr>subject := Some s2\<rparr>)))
                    else Inr message)
             in (case with_subject of
                   Inl e \<Rightarrow> (Thrown e, lg)
                 | Inr message1 \<Rightarrow>
                    (let with_html =
                       (if truthy_str template then
                          (case render Formatters (the template) compileData of
                             Inl e \<Rightarrow> Inl e
                           | Inr h1 \<Rightarrow>
                               (case render Formatters h1 compileData of
                                  Inl e \<Rightarrow> Inl e
                                | Inr h2 \<Rightarrow> Inr (message1\<lparr>html := Some h2\<rparr>)))
                        else Inr (message1\<lparr>html := subject message1\<rparr>))
                     in (case with_html of
                           Inl e \<Rightarrow> (Thrown e, lg)
                         | Inr message2 \<Rightarrow>
                             (CallbackMessage (add_text htmlToText message2), lg)))))))"

subsection \<open>send\<close>

text \<open>The message object the caller passes to \<^verbatim>\<open>send\<close>. Objects live in a store,
  and \<^verbatim>\<open>send\<close> receives a reference, so that what it writes is seen by the caller
  and by the transport.\<close>

record 'cfg mail =
  msg_to :: "string option"
  msg_transporter :: "'cfg option"
  msg_subject :: "string option"
  msg_html :: "string option"
  msg_text :: "string option"

type_synonym 'cfg store = "nat \<Rightarrow> 'cfg mail"

text \<open>The error \<^verbatim>\<open>sendMail\<close> may pass to its callback; \<^verbatim>\<open>send\<close> forwards the
  \<^verbatim>\<open>message\<close> property when there is one.\<close>

datatype transport_error = ErrorWithMessage string | OtherError string

fun unwrap_error :: "transport_error \<Rightarrow> string" where
  "unwrap_error (ErrorWithMessage m) = m"
| "unwrap_error (OtherError e) = e"

datatype 'info send_result =
    SendThrown exn
  | SendReturned
  | SendCallbackError string
  | SendCallbackInfo 'info

text \<open>One use of the mail transport: the configuration given to
  \<^verbatim>\<open>createTransport\<close>, the reference given to \<^verbatim>\<open>sendMail\<close> and the object it then
  refers to.\<close>

record ('cfg, 'info) send_out =
  send_result :: "'info send_result"
  send_log :: "log_entry list"
  send_store :: "'cfg store"
  transport_calls :: "('cfg \<times> nat \<times> 'cfg mail) list"

text \<open>\<^verbatim>\<open>JSON.parse(JSON.stringify(x))\<close> on plain JSON data is an equal copy; on
  \<^verbatim>\<open>undefined\<close> it throws a SyntaxError.\<close>

definition json_copy :: "'cfg option \<Rightarrow> exn + 'cfg" where
  "json_copy x =
     (case x of
        None \<Rightarrow> Inl (SyntaxError ''undefined is not valid JSON'')
      | Some c \<Rightarrow> Inr c)"

definition send ::
  "engine \<Rightarrow> (string \<Rightarrow> string) \<Rightarrow> ('cfg \<Rightarrow> 'cfg mail \<Rightarrow> transport_error + 'info)
   \<Rightarrow> 'cfg state \<Rightarrow> 'cfg store \<Rightarrow> templateOps option \<Rightarrow> nat option \<Rightarrow> bool
   \<Rightarrow> ('cfg, 'info) send_out" where
  "send render htmlToText sendMail st store template message callback =
     (let errMsg0 = (if template = None then ''no template defined'' else []);
          errMsg1 = (if message = None \<or> \<not> truthy_str (msg_to (store (the message)))
                     then ''no template and no options defined for nodemailer'' else errMsg0);
          errMsg = (if \<not> callback then ''no callback defined'' else errMsg1)
      in if errMsg \<noteq> [] then
           \<lparr>send_result =
              (if callback then SendCallbackError errMsg
               else SendThrown (TypeError ''callback is not a function'')),
            send_log = [LogError errMsg], send_store = store, transport_calls = []\<rparr>
         else
           (let a = the message;
                m = store a
            in (case json_copy (case msg_transporter m of
                                  Some c \<Rightarrow> Some c
                                | None \<Rightarrow> transporter (opts st)) of
                  Inl e \<Rightarrow>
                    \<lparr>send_result = SendThrown e, send_log = [], send_store = store,
                     transport_calls = []\<rparr>
                | Inr transporterOpts \<Rightarrow>
                   (let store1 = store(a := m\<lparr>msg_transporter := None\<rparr>)
                    in (case getTemplate render htmlToText st template True of
                          (Thrown e, lg) \<Rightarrow>
                            \<lparr>send_result = SendThrown e, send_log = lg, send_store = store1,
                             transport_calls = []\<rparr>
                        | (NoCallback, lg) \<Rightarrow>
                            \<lparr>send_result = SendReturned, send_log = lg,
                             send_store = store1, transport_calls = []\<rparr>
                        | (CallbackError err, lg) \<Rightarrow>
                            \<lparr>send_result = SendCallbackError err,
                             send_log = lg @ [LogError ''error in getting template: ''],
                             send_store = store1, transport_calls = []\<rparr>
                        | (CallbackMessage mailContent, lg) \<Rightarrow>
                           (let m1 = store1 a;
                                m2 = m1\<lparr>msg_subject := or_else (msg_subject m1) (subject mailContent),
                                       msg_html := or_else (msg_html m1) (html mailContent),
                                       msg_text := or_else (msg_text m1) (plaintext mailContent)\<rparr>;
                                store2 = store1(a := m2)
                            in (case sendMail transporterOpts (store2 a) of
                                  Inl err \<Rightarrow>
                                    \<lparr>send_result = SendCallbackError (unwrap_error err),
                                     send_log = lg @ [LogError ''error in sendMail: ''],
                                     send_store = store2,
                                     transport_calls = [(transporterOpts, a, store2 a)]\<rparr>
                                | Inr info \<Rightarrow>
                                    \<lparr>send_result = SendCallbackInfo info,
                                     send_log = lg @ [LogSuccess ''successfull sent mail''],
                                     send_store = store2,
                                     transport_calls = [(transporterOpts, a, store2 a)]\<rparr>)))))))"

subsection \<open>A reference engine for examples\<close>

text \<open>
  The mustache engine is not part of the module. For the worked examples the
  following small engine stands in for it: literal text and \<^verbatim>\<open>{{ name }}\<close> tags on the
  top-level context, each tag resolved through \<open>parseExpression\<close> and written
  HTML-escaped; no sections, comments, partials or unescaped tags. As in mustache,
  the template is parsed first (an unclosed tag is an error) and rendered after.
\<close>

datatype token = TextTok string | NameTok string

fun scan_text :: "string \<Rightarrow> string \<Rightarrow> exn + token list"
  and scan_tag :: "string \<Rightarrow> string \<Rightarrow> exn + token list" where
  "scan_text acc [] = Inr [TextTok (rev acc)]"
| "scan_text acc [c] = Inr [TextTok (rev (c # acc))]"
| "scan_text acc (c # d # r) =
     (if c = CHR ''{'' \<and> d = CHR ''{''
      then (case scan_tag [] r of Inl e \<Rightarrow> Inl e | Inr ts \<Rightarrow> Inr (TextTok (rev acc) # ts))
      else scan_text (c # acc) (d # r))"
| "scan_tag acc [] = Inl (EngineError ''Unclosed tag'')"
| "scan_tag acc [c] = Inl (EngineError ''Unclosed tag'')"
| "scan_tag acc (c # d # r) =
     (if c = CHR ''}'' \<and> d = CHR ''}''
      then (case scan_text [] r of Inl e \<Rightarrow> Inl e | Inr ts \<Rightarrow> Inr (NameTok (trim (rev acc)) # ts))
      else scan_tag (c # acc) (d # r))"

definition escapeHtml :: "string \<Rightarrow> string" where
  "escapeHtml s =
     concat (map (\<lambda>c. if c = CHR ''&'' then ''&amp;''
                       else if c = CHR ''<'' then ''&lt;''
                       else if c = CHR ''>'' then ''&gt;''
                       else if c = CHR 0x22 then ''&quot;''
                       else if c = CHR 0x27 then ''&#39;''
                       else if c = CHR ''/'' then ''&#x2F;''
                       else if c = CHR 0x60 then ''&#x60;''
                       else if c = CHR ''='' then ''&#x3D;''
                       else [c]) s)"

text \<open>The dotted lookup of a name on \<^verbatim>\<open>{ data, lang, templates }\<close>.\<close>

fun descend :: "jsval \<Rightarrow> string list \<Rightarrow> jsval" where
  "descend v [] = v"
| "descend (Obj kvs) (k # ks) =
     (case map_of kvs k of None \<Rightarrow> Undefined | Some v \<Rightarrow> descend v ks)"
| "descend v (k # ks) = Undefined"

definition view_lookup :: "compileData \<Rightarrow> string \<Rightarrow> jsval" where
  "view_lookup cd n =
     (case split_on CHR ''.'' n of
        [] \<Rightarrow> Undefined
      | k # ks \<Rightarrow>
          if k = ''data'' then descend (cd_data cd) ks
          else if k = ''lang'' then descend (cd_lang cd) ks
          else if k = ''templates'' then
            (case ks of
               [t] \<Rightarrow> (case cd_templates cd t of None \<Rightarrow> Undefined | Some s \<Rightarrow> Str s)
             | _ \<Rightarrow> Undefined)
          else Undefined)"

text \<open>Only strings are written; any other value is written as the empty string.\<close>

fun render_tokens :: "(string \<Rightarrow> exn + jsval) \<Rightarrow> token list \<Rightarrow> exn + string" where
  "render_tokens lk [] = Inr []"
| "render_tokens lk (TextTok s # ts) =
     (case render_tokens lk ts of Inl e \<Rightarrow> Inl e | Inr out \<Rightarrow> Inr (s @ out))"
| "render_tokens lk (NameTok n # ts) =
     (case lk n of
        Inl e \<Rightarrow> Inl e
      | Inr v \<Rightarrow>
          (case render_tokens lk ts of
             Inl e \<Rightarrow> Inl e
           | Inr out \<Rightarrow> Inr ((case v of Str s \<Rightarrow> escapeHtml s | _ \<Rightarrow> []) @ out)))"

definition reference_render :: engine where
  "reference_render Formatters template compileData =
     (case scan_text [] template of
        Inl e \<Rightarrow> Inl e
      | Inr ts \<Rightarrow> render_tokens (parseExpression Formatters (view_lookup compileData)) ts)"

text \<open>A filter for the examples: it appends an exclamation mark to a string.\<close>

definition bang :: "jsval list \<Rightarrow> exn + jsval" where
  "bang ps = (case ps of Str s # _ \<Rightarrow> Inr (Str (s @ ''!'')) | _ \<Rightarrow> Inr Undefined)"


text \<open>Another one: it returns its arguments, numbered, so that an example can show
  what a filter receives.\<close>

definition collect :: "jsval list \<Rightarrow> exn + jsval" where
  "collect ps = Inr (Obj (zip [''0'', ''1'', ''2'', ''3'', ''4''] ps))"

subsection \<open>The module at load time, and a store for the examples\<close>

text \<open>Lines 17 to 21: \<^verbatim>\<open>opts = {}\<close> and three empty caches.\<close>

definition initial_state :: "'cfg state" where
  "initial_state =
     \<lparr>opts = \<lparr>defaultLanguage = None, transporter = None, mustacheFormatter = None\<rparr>,
      translation_cache = (\<lambda>l. Undefined),
      templates = (\<lambda>n. None),
      subjects = (\<lambda>n. None)\<rparr>"

text \<open>Three templates that reference one another, a template with a subject only,
  and a German bundle whose values reference one another.\<close>

definition example_docs :: "template_doc list" where
  "example_docs =
     [\<lparr>doc_name = ''T1'', doc_text = Some ''{{templates.T2}}'',
        doc_subject = Some ''{{lang.greeting}}''\<rparr>,
      \<lparr>doc_name = ''T2'', doc_text = Some ''{{templates.T3}}'', doc_subject = None\<rparr>,
      \<lparr>doc_name = ''T3'', doc_text = Some ''{{data.x}}'', doc_subject = None\<rparr>,
      \<lparr>doc_name = ''subject_only'', doc_text = None, doc_subject = Some ''Hi {{data.x}}''\<rparr>]"

definition example_translations :: "translation_doc list" where
  "example_translations =
     [\<lparr>tr_lang = ''de'',
       tr_keys = Obj [(''greeting'', Str ''{{lang.hello}}''), (''hello'', Str ''{{data.x}}'')]\<rparr>]"

definition example_state :: "string state" where
  "example_state =
     reload_state
       (reloadTemplates (Fetched (Some example_translations)) (Fetched (Some example_docs))
          (snd (start \<lparr>so_defaultLanguage = Some ''de'', so_transporter = Some ''smtp://default'',
                      so_mustacheFormatter = None\<rparr> initial_state)))"

definition example_ops :: "string \<Rightarrow> templateOps" where
  "example_ops n = \<lparr>t_name = n, t_language = None, t_data = Obj [(''x'', Str ''v'')]\<rparr>"

text \<open>Two message objects for the examples, at the references 0 and 1: the first
  overrides the transporter and leaves subject, html and text unset, the second
  sets all three and has no transporter. Every other reference holds an object
  without recipient.\<close>

definition example_store :: "string store" where
  "example_store =
     (\<lambda>a. \<lparr>msg_to = None, msg_transporter = None, msg_subject = None,
            msg_html = None, msg_text = None\<rparr>)
       (0 := \<lparr>msg_to = Some ''a@example.org'', msg_transporter = Some ''smtp://override'',
              msg_subject = None, msg_html = None, msg_text = None\<rparr>,
        1 := \<lparr>msg_to = Some ''b@example.org'', msg_transporter = None,
              msg_subject = Some ''S'', msg_html = Some ''H'', msg_text = Some ''T''\<rparr>)"

text \<open>A transport for the examples: it accepts every message.\<close>

definition example_sendMail :: "string \<Rightarrow> string mail \<Rightarrow> transport_error + string" where
  "example_sendMail cfg m = Inr ''250 OK''"

section \<open>Properties of the filter pipeline\<close>

subsection \<open>Splitting and joining\<close>

lemma split_on_free: "c \<notin> set s \<Longrightarrow> split_on c s = [s]"
  by (induction s) auto

lemma split_on_append:
  "c \<notin> set s \<Longrightarrow> split_on c (s @ c # r) = s # split_on c r"
  by (induction s) auto

lemma split_on_join:
  "segs \<noteq> [] \<Longrightarrow> \<forall>s\<in>set segs. c \<notin> set s \<Longrightarrow> split_on c (join_with c segs) = segs"
proof (induction c segs rule: join_with.induct)
  case (1 c)
  then show ?case by simp
next
  case (2 c s)
  then show ?case by (simp add: split_on_free)
next
  case (3 c s t ss)
  then show ?case by (simp add: split_on_append)
qed

lemma parseExpression_path:
  "CHR ''|'' \<notin> set name \<Longrightarrow> parseExpression F lookup0 name = Inr (lookup0 (trim name))"
  by (simp add: parseExpression.simps [of F lookup0 name] split_on_free)

lemma parseParam_no_throw:
  assumes "CHR ''|'' \<notin> set p"
  shows "\<exists>v. parseParam p (parseExpression F lookup0) = Inr v"
  using assms by (simp add: parseParam_def parseExpression_path)

lemma parseParams_no_throw:
  "\<forall>m\<in>set ms. CHR ''|'' \<notin> set m \<Longrightarrow> \<exists>vs. parseParams ms (parseExpression F lookup0) = Inr vs"
proof (induction ms)
  case Nil
  show ?case by simp
next
  case (Cons m ms)
  have "CHR ''|'' \<notin> set (trim m)" using Cons.prems set_trim_subset [of m] by auto
  then obtain v where v: "parseParam (trim m) (parseExpression F lookup0) = Inr v"
    using parseParam_no_throw by blast
  obtain vs where vs: "parseParams ms (parseExpression F lookup0) = Inr vs"
    using Cons by auto
  show ?case by (simp add: v vs)
qed

lemma applyFilter_unregistered:
  assumes "CHR ''|'' \<notin> set seg" and "filterExp_exec seg = Some g" and "F (trim g) = None"
  shows "applyFilter F expr seg (parseExpression F lookup0) = Inr expr"
proof -
  have "\<forall>m\<in>set (paramsExp_matches seg). CHR ''|'' \<notin> set m"
    using paramsExp_matches_subset assms(1) by blast
  then obtain vs where "parseParams (paramsExp_matches seg) (parseExpression F lookup0) = Inr vs"
    using parseParams_no_throw by blast
  then show ?thesis using assms(2,3) by (simp add: applyFilter_def)
qed

lemma applyFilters_skip:
  assumes "\<And>e. applyFilter F e seg lk = Inr e"
  shows "applyFilters F expr (before @ seg # after) lk = applyFilters F expr (before @ after) lk"
  using assms by (induction before arbitrary: expr) (auto split: sum.splits)



subsection \<open>Literals\<close>














subsection \<open>The filter name\<close>

text \<open>The group of \<^verbatim>\<open>filterExp\<close>, trimmed, is the trimmed text before the first colon
  of the segment. There is no match exactly when the segment is empty or starts
  with a colon.\<close>

lemma space_not_colon: "is_space c \<Longrightarrow> c \<noteq> CHR '':''"
  by (auto simp: is_space_def)

lemma takeWhile_split_aux:
  "(\<And>x. P x \<Longrightarrow> Q x) \<Longrightarrow> takeWhile Q xs = takeWhile P xs @ takeWhile Q (dropWhile P xs)"
  by (induction xs) auto

lemma trim_spaces: "\<forall>c\<in>set ws. is_space c \<Longrightarrow> trim (ws @ g) = trim g"
  by (simp add: trim_def dropWhile_append2)

lemma trim_all_spaces: "\<forall>c\<in>set ws. is_space c \<Longrightarrow> trim ws = []"
proof -
  assume "\<forall>c\<in>set ws. is_space c"
  then have "dropWhile is_space ws = []" by simp
  then show ?thesis by (simp only: trim_def) simp
qed

lemma filterExp_exec_None:
  "filterExp_exec seg = None \<longleftrightarrow> seg = [] \<or> hd seg = CHR '':''"
proof (cases seg)
  case Nil
  then show ?thesis by (simp add: filterExp_exec_def)
next
  case (Cons c cs)
  then show ?thesis
    by (auto simp: filterExp_exec_def Let_def dest: space_not_colon)
qed

lemma filterExp_exec_name:
  assumes "filterExp_exec seg = Some g"
  shows "trim g = trim (takeWhile (\<lambda>c. c \<noteq> CHR '':'') seg)"
proof -
  let ?ws = "takeWhile is_space seg"
  let ?g = "takeWhile (\<lambda>c. c \<noteq> CHR '':'') (dropWhile is_space seg)"
  have sp: "\<forall>c\<in>set ?ws. is_space c" by (auto dest: set_takeWhileD)
  have split: "takeWhile (\<lambda>c. c \<noteq> CHR '':'') seg = ?ws @ ?g"
    by (rule takeWhile_split_aux) (rule space_not_colon)
  show ?thesis
  proof (cases "?g = []")
    case False
    with assms have "g = ?g" by (simp add: filterExp_exec_def Let_def)
    then show ?thesis using split trim_spaces [OF sp, of ?g] by simp
  next
    case True
    with assms have g: "g = [last ?ws]" and ne: "?ws \<noteq> []"
      by (auto simp: filterExp_exec_def Let_def split: if_splits)
    have "is_space (last ?ws)" using ne sp last_in_set by blast
    then have "trim g = []" using g trim_all_spaces [of "[last ?ws]"] by simp
    moreover have "trim (takeWhile (\<lambda>c. c \<noteq> CHR '':'') seg) = []"
      using split True trim_all_spaces [OF sp] by simp
    ultimately show ?thesis by simp
  qed
qed

subsection \<open>Unregistered filters\<close>

text \<open>
  Claim C2. Let a token body be written from segments that hold no \<^verbatim>\<open>|\<close>, and let
  \<open>seg\<close> be one of its filter segments whose name (the trimmed first group of
  \<^verbatim>\<open>filterExp\<close>) is not a key of the registered filters. Then applying that filter to
  any expression value returns the value unchanged and throws nothing, and the token
  evaluates to what it evaluates to without the segment: the filters before and
  after it are applied as usual.
\<close>

theorem unknown_filter_passes_through:
  assumes "\<forall>s\<in>set (path # before @ seg # after). CHR ''|'' \<notin> set s"
    and "filterExp_exec seg = Some g" and "Formatters (trim g) = None"
  shows "applyFilter Formatters expr seg (parseExpression Formatters lookup0) = Inr expr
    \<and> parseExpression Formatters lookup0 (join_with CHR ''|'' (path # before @ seg # after))
       = parseExpression Formatters lookup0 (join_with CHR ''|'' (path # before @ after))"
proof -
  have seg: "CHR ''|'' \<notin> set seg" using assms(1) by simp
  have a: "\<And>e. applyFilter Formatters e seg (parseExpression Formatters lookup0) = Inr e"
    using seg assms(2,3) by (rule applyFilter_unregistered)
  have s1: "split_on CHR ''|'' (join_with CHR ''|'' (path # before @ seg # after))
      = path # before @ seg # after"
    using assms(1) by (intro split_on_join) simp_all
  have s2: "split_on CHR ''|'' (join_with CHR ''|'' (path # before @ after))
      = path # before @ after"
    using assms(1) by (intro split_on_join) simp_all
  have "parseExpression Formatters lookup0 (join_with CHR ''|'' (path # before @ seg # after))
       = parseExpression Formatters lookup0 (join_with CHR ''|'' (path # before @ after))"
    by (simp add: parseExpression.simps [of _ _ "join_with CHR ''|'' (path # before @ seg # after)"]
        parseExpression.simps [of _ _ "join_with CHR ''|'' (path # before @ after)"]
        s1 s2 applyFilters_skip [of Formatters seg, OF a])
  with a show ?thesis by simp
qed

theorem unknown_filter_passes_through_witness:
  "parseExpression Map.empty
      (\<lambda>n. if n = ''data.name'' then Str ''abc'' else Undefined)
      ''data.name | missingFilter''
   = Inr (Str ''abc'')
   \<and> parseExpression [''bang'' \<mapsto> bang]
      (\<lambda>n. if n = ''data.name'' then Str ''abc'' else Undefined)
      ''data.name | missingFilter | bang''
   = Inr (Str ''abc!'')"
proof -
  have a: "parseExpression Map.empty
      (\<lambda>n. if n = ''data.name'' then Str ''abc'' else Undefined)
      ''data.name | missingFilter'' = Inr (Str ''abc'')"
    using unknown_filter_passes_through [of "''data.name ''" "[]" "'' missingFilter''" "[]"
        "''missingFilter''" Map.empty Undefined
        "\<lambda>n. if n = ''data.name'' then Str ''abc'' else Undefined"]
    by (simp add: filterExp_exec_def is_space_def trim_def parseExpression_path)
  have b: "parseExpression [''bang'' \<mapsto> bang]
      (\<lambda>n. if n = ''data.name'' then Str ''abc'' else Undefined)
      ''data.name | missingFilter | bang'' = Inr (Str ''abc!'')"
    using unknown_filter_passes_through [of "''data.name ''" "[]" "'' missingFilter ''"
        "['' bang'']" "''missingFilter ''" "[''bang'' \<mapsto> bang]" Undefined
        "\<lambda>n. if n = ''data.name'' then Str ''abc'' else Undefined"]
    by (simp add: filterExp_exec_def is_space_def trim_def
        parseExpression.simps [of _ _ "''data.name | bang''"]
        applyFilter_def bang_def)
  from a b show ?thesis by simp
qed

subsection \<open>Empty pipe segments\<close>

text \<open>
  Claim C8. An empty pipe segment is not ignored: \<^verbatim>\<open>filterExp.exec("")\<close> is \<^verbatim>\<open>null\<close>,
  and reading \<^verbatim>\<open>match[1]\<close> throws a TypeError, whatever filters are registered and
  whatever the path resolves to. The two token bodies are those of
  \<^verbatim>\<open>{{ data.name || upper }}\<close> and \<^verbatim>\<open>{{ data.name | }}\<close>.
\<close>

theorem empty_segment_throws:
  "parseExpression Formatters lookup0 ''data.name || upper''
     = Inl (TypeError ''Cannot read property 1 of null'')
   \<and> parseExpression Formatters lookup0 ''data.name |''
     = Inl (TypeError ''Cannot read property 1 of null'')"
  by (simp add: parseExpression.simps [of _ _ "''data.name || upper''"]
      parseExpression.simps [of _ _ "''data.name |''"]
      applyFilter_def filterExp_exec_def)


text \<open>A segment of white space alone is different: its filter name is the empty
  string, which is not registered, and the value passes through.\<close>

lemma blank_segment_example:
  "parseExpression Map.empty (\<lambda>n. if n = ''data.name'' then Str ''abc'' else Undefined)
     ''data.name | | missingFilter'' = Inr (Str ''abc'')"
  by (simp add: parseExpression.simps [of _ _ "''data.name | | missingFilter''"]
      applyFilter_def filterExp_exec_def is_space_def trim_def)

subsection \<open>Classification of filter parameters\<close>




text \<open>What a registered filter receives: the expression value, then the parameters
  in the order they are written. The colon inside the quotes does not split.\<close>

lemma applyFilter_example:
  "applyFilter [''collect'' \<mapsto> collect] (Str ''e'')
     ('' collect : '' @ [CHR 0x27] @ ''a:b'' @ [CHR 0x27] @ '' : -12 : +.5 : data.x'')
     (\<lambda>n. Inr (Str ''looked up''))
   = Inr (Obj [(''0'', Str ''e''), (''1'', Str ''a:b''), (''2'', Num (- 12)),
               (''3'', Num (1 / 2)), (''4'', Str ''looked up'')])"
  by code_simp

section \<open>Properties of the caches\<close>




lemma foldl_template_cache_frame:
  "translation_cache (foldl (\<lambda>s d. s\<lparr>templates := (templates s)(doc_name d := doc_text d),
                           subjects := (subjects s)(doc_name d := doc_subject d)\<rparr>) st ds)
     = translation_cache st
   \<and> opts (foldl (\<lambda>s d. s\<lparr>templates := (templates s)(doc_name d := doc_text d),
                           subjects := (subjects s)(doc_name d := doc_subject d)\<rparr>) st ds)
     = opts st"
  by (induction ds rule: rev_induct) simp_all

lemma getTemplates_frame:
  "translation_cache (snd (snd (getTemplates cb res st))) = translation_cache st
   \<and> opts (snd (snd (getTemplates cb res st))) = opts st"
  by (cases res) (simp_all add: getTemplates_def foldl_template_cache_frame)

lemma getTranslations_frame:
  "templates (snd (snd (getTranslations cb res st))) = templates st
   \<and> subjects (snd (snd (getTranslations cb res st))) = subjects st
   \<and> opts (snd (snd (getTranslations cb res st))) = opts st"
  by (cases res) (simp_all add: getTranslations_def)

subsection \<open>A successful reload\<close>



subsection \<open>A failed fetch\<close>

text \<open>
  Claim C7. \<^verbatim>\<open>reloadTemplates\<close> passes no callback to \<^verbatim>\<open>getTranslations\<close> and
  \<^verbatim>\<open>getTemplates\<close>, and on a failed fetch each handler logs the error and then calls
  the callback: the call throws a TypeError. The cache of the failed fetch is left
  as it was.
\<close>

theorem reload_failure_throws:
  "translations_handler (reloadTemplates (FetchFailed err) templates_res st)
     = Threw (TypeError ''callback is not a function'')
   \<and> translation_cache (reload_state (reloadTemplates (FetchFailed err) templates_res st))
     = translation_cache st
   \<and> LogError err \<in> set (reload_log (reloadTemplates (FetchFailed err) templates_res st))
   \<and> templates_handler (reloadTemplates translations_res (FetchFailed err) st)
     = Threw (TypeError ''callback is not a function'')
   \<and> templates (reload_state (reloadTemplates translations_res (FetchFailed err) st))
     = templates st
   \<and> subjects (reload_state (reloadTemplates translations_res (FetchFailed err) st))
     = subjects st
   \<and> LogError err \<in> set (reload_log (reloadTemplates translations_res (FetchFailed err) st))"
proof -
  obtain r1 l1 st1 where t: "getTranslations False translations_res st = (r1, l1, st1)"
    by (cases "getTranslations False translations_res st") auto
  have f1: "templates st1 = templates st \<and> subjects st1 = subjects st"
    using getTranslations_frame [of False translations_res st] t by simp
  obtain r2 l2 st2 where u: "getTemplates False templates_res st = (r2, l2, st2)"
    by (cases "getTemplates False templates_res st") auto
  have f2: "translation_cache st2 = translation_cache st"
    using getTemplates_frame [of False templates_res st] u by simp
  have a: "getTranslations False (FetchFailed err) st
      = (Threw (TypeError ''callback is not a function''), [LogError err], st)"
    by (simp add: getTranslations_def)
  have b: "getTemplates False (FetchFailed err) st1
      = (Threw (TypeError ''callback is not a function''), [LogError err], st1)"
    by (simp add: getTemplates_def)
  show ?thesis
    using f1 f2 by (simp add: reloadTemplates_def a b t u)
qed

section \<open>Properties of getTemplate\<close>

lemma truthy_str_Some [simp]: "truthy_str (Some s) = (s \<noteq> [])"
  by (simp add: truthy_str_def)

lemma truthy_str_None [simp]: "\<not> truthy_str None"
  by (simp add: truthy_str_def)

lemma add_text_html:
  "add_text h \<lparr>subject = s, html = Some x, plaintext = None\<rparr>
     = \<lparr>subject = s, html = Some x, plaintext = (if x = [] then None else Some (h x))\<rparr>"
  by (simp add: add_text_def)


subsection \<open>Two passes\<close>


text \<open>
  The example: the subject of \<^verbatim>\<open>T1\<close> is \<^verbatim>\<open>{{lang.greeting}}\<close>, the bundle maps
  \<^verbatim>\<open>greeting\<close> to \<^verbatim>\<open>{{lang.hello}}\<close> and \<^verbatim>\<open>hello\<close> to \<^verbatim>\<open>{{data.x}}\<close>; the body of
  \<^verbatim>\<open>T1\<close> references \<^verbatim>\<open>T2\<close>, which references \<^verbatim>\<open>T3\<close>, whose text is \<^verbatim>\<open>{{data.x}}\<close>.
  Two levels are resolved and the third is left in the output as it is written,
  although \<^verbatim>\<open>data.x\<close> has a value.
\<close>

lemma example_state_caches:
  "templates example_state ''T1'' = Some ''{{templates.T2}}''"
  "templates example_state ''T2'' = Some ''{{templates.T3}}''"
  "templates example_state ''T3'' = Some ''{{data.x}}''"
  "templates example_state ''subject_only'' = None"
  "templates example_state ''unknown'' = None"
  "subjects example_state ''T1'' = Some ''{{lang.greeting}}''"
  "subjects example_state ''subject_only'' = Some ''Hi {{data.x}}''"
  "subjects example_state ''unknown'' = None"
  "formatters_of example_state = Map.empty"
  "transporter (opts example_state) = Some ''smtp://default''"
  by (simp_all add: example_state_def reloadTemplates_def getTranslations_def getTemplates_def
      start_def initial_state_def example_docs_def example_translations_def docs_or_empty_def
      formatters_of_def)

lemma example_ops_name: "t_name (example_ops n) = n"
  by (simp add: example_ops_def)

lemma example_resolve_lang:
  "resolve_lang example_state (example_ops n)
     = (Obj [(''greeting'', Str ''{{lang.hello}}''), (''hello'', Str ''{{data.x}}'')], [])"
  by (simp add: resolve_lang_def example_ops_def example_state_def
      reloadTemplates_def getTranslations_def getTemplates_def start_def initial_state_def
      example_docs_def example_translations_def docs_or_empty_def Let_def)

lemma example_compile_data:
  "compile_data example_state (example_ops n) =
     \<lparr>cd_data = Obj [(''x'', Str ''v'')],
      cd_lang = Obj [(''greeting'', Str ''{{lang.hello}}''), (''hello'', Str ''{{data.x}}'')],
      cd_templates = templates example_state\<rparr>"
  by (simp add: compile_data_def example_resolve_lang) (simp add: example_ops_def)

lemma example_lookups:
  "view_lookup (compile_data example_state (example_ops n)) ''lang.greeting'' = Str ''{{lang.hello}}''"
  "view_lookup (compile_data example_state (example_ops n)) ''lang.hello'' = Str ''{{data.x}}''"
  "view_lookup (compile_data example_state (example_ops n)) ''templates.T2'' = Str ''{{templates.T3}}''"
  "view_lookup (compile_data example_state (example_ops n)) ''templates.T3'' = Str ''{{data.x}}''"
  "view_lookup (compile_data example_state (example_ops n)) ''data.x'' = Str ''v''"
  by (simp_all add: example_compile_data view_lookup_def example_state_caches)

lemma example_renders:
  "reference_render Map.empty ''{{lang.greeting}}'' (compile_data example_state (example_ops n))
     = Inr ''{{lang.hello}}''"
  "reference_render Map.empty ''{{lang.hello}}'' (compile_data example_state (example_ops n))
     = Inr ''{{data.x}}''"
  "reference_render Map.empty ''{{templates.T2}}'' (compile_data example_state (example_ops n))
     = Inr ''{{templates.T3}}''"
  "reference_render Map.empty ''{{templates.T3}}'' (compile_data example_state (example_ops n))
     = Inr ''{{data.x}}''"
  "reference_render Map.empty ''Hi {{data.x}}'' (compile_data example_state (example_ops n))
     = Inr ''Hi v''"
  "reference_render Map.empty ''Hi v'' (compile_data example_state (example_ops n))
     = Inr ''Hi v''"
  by (simp_all add: reference_render_def parseExpression_path example_lookups trim_def
      is_space_def escapeHtml_def)


subsection \<open>A name without a body\<close>




section \<open>Properties of send\<close>

lemma or_else_simps [simp]:
  "or_else None b = b" "or_else (Some []) b = b" "s \<noteq> [] \<Longrightarrow> or_else (Some s) b = Some s"
  by (simp_all add: or_else_def)

lemma send_without_callback:
  "send_result (send render htmlToText sendMail st store template message False)
     = SendThrown (TypeError ''callback is not a function'')
   \<and> transport_calls (send render htmlToText sendMail st store template message False) = []"
  by (simp add: send_def Let_def)

subsection \<open>A message without recipient\<close>

text \<open>
  Claim C6. When the message argument is absent, or its \<^verbatim>\<open>to\<close> is absent or empty,
  \<^verbatim>\<open>send\<close> does not use the transport and does not touch the store; called with a
  callback, it passes it the error \<^verbatim>\<open>no template and no options defined for nodemailer\<close>.
\<close>

theorem send_without_recipient:
  assumes "message = None \<or> \<not> truthy_str (msg_to (store (the message)))"
  shows "transport_calls (send render htmlToText sendMail st store template message callback) = []
    \<and> send_store (send render htmlToText sendMail st store template message callback) = store
    \<and> (callback \<longrightarrow>
         send_result (send render htmlToText sendMail st store template message callback)
           = SendCallbackError ''no template and no options defined for nodemailer'')"
  using assms by (auto simp: send_def Let_def)

theorem send_without_recipient_witness:
  "transport_calls (send reference_render (\<lambda>h. h) example_sendMail example_state example_store
       (Some (example_ops ''T1'')) (Some 2) True) = []
   \<and> send_result (send reference_render (\<lambda>h. h) example_sendMail example_state example_store
       (Some (example_ops ''T1'')) (Some 2) True)
     = SendCallbackError ''no template and no options defined for nodemailer''
   \<and> transport_calls (send reference_render (\<lambda>h. h) example_sendMail example_state example_store
       (Some (example_ops ''T1'')) None True) = []
   \<and> send_result (send reference_render (\<lambda>h. h) example_sendMail example_state example_store
       (Some (example_ops ''T1'')) None True)
     = SendCallbackError ''no template and no options defined for nodemailer''"
  using send_without_recipient [of "Some 2" example_store reference_render "\<lambda>h. h"
      example_sendMail example_state "Some (example_ops ''T1'')" True]
    send_without_recipient [of None example_store reference_render "\<lambda>h. h"
      example_sendMail example_state "Some (example_ops ''T1'')" True]
  by (simp add: example_store_def)

subsection \<open>The transporter\<close>


lemma example_getTemplate_T1:
  "getTemplate reference_render (\<lambda>h. h) example_state (Some (example_ops ''T1'')) True
     = (CallbackMessage \<lparr>subject = Some ''{{data.x}}'', html = Some ''{{data.x}}'',
          plaintext = Some ''{{data.x}}''\<rparr>, [])"
  by (simp add: getTemplate_def Let_def example_state_caches example_renders example_ops_name
      add_text_html example_resolve_lang)




subsection \<open>The caller's message object\<close>

text \<open>
  Claim C10, as stated, fails in its last part: the object need not differ after
  \<^verbatim>\<open>send\<close>. The message at reference 1 has no \<^verbatim>\<open>transporter\<close> and sets subject, html and
  text; it is sent, and it is afterwards what it was before.
\<close>

theorem send_changes_message_counterexample:
  "send_store (send reference_render (\<lambda>h. h) example_sendMail example_state example_store
       (Some (example_ops ''T1'')) (Some 1) True) 1 = example_store 1
   \<and> send_result (send reference_render (\<lambda>h. h) example_sendMail example_state example_store
       (Some (example_ops ''T1'')) (Some 1) True) = SendCallbackInfo ''250 OK''"
  by (simp add: send_def Let_def example_store_def json_copy_def example_getTemplate_T1
      example_sendMail_def example_state_caches)

text \<open>
  Claim C10, amended. Let \<^verbatim>\<open>send\<close> be called with a template descriptor, a callback
  and a message that has a recipient, let a transporter configuration exist, and let
  \<^verbatim>\<open>getTemplate\<close> produce the content \<open>mc\<close>. Then \<^verbatim>\<open>send\<close> writes to the caller's object
  and to nothing else in the store: the \<^verbatim>\<open>transporter\<close> is deleted, and each of subject,
  html and text keeps the caller's value when that is set and non-empty and takes
  the rendered value otherwise. The transport is handed the same reference, and the
  object is then in this final state. The object differs from the one passed in
  unless it had no \<^verbatim>\<open>transporter\<close> and the three assignments changed nothing.
\<close>

theorem send_mutates_message:
  assumes "truthy_str (msg_to (store a))"
    and "msg_transporter (store a) \<noteq> None \<or> transporter (opts st) \<noteq> None"
    and "getTemplate render htmlToText st (Some ops) True = (CallbackMessage mc, lg)"
  shows "send_store (send render htmlToText sendMail st store (Some ops) (Some a) True)
       = store(a := (store a)\<lparr>msg_transporter := None,
            msg_subject := or_else (msg_subject (store a)) (subject mc),
            msg_html := or_else (msg_html (store a)) (html mc),
            msg_text := or_else (msg_text (store a)) (plaintext mc)\<rparr>)
    \<and> (\<exists>cfg. transport_calls (send render htmlToText sendMail st store (Some ops) (Some a) True)
         = [(cfg, a, send_store
               (send render htmlToText sendMail st store (Some ops) (Some a) True) a)])
    \<and> (send_store (send render htmlToText sendMail st store (Some ops) (Some a) True) a = store a
       \<longleftrightarrow> msg_transporter (store a) = None
         \<and> or_else (msg_subject (store a)) (subject mc) = msg_subject (store a)
         \<and> or_else (msg_html (store a)) (html mc) = msg_html (store a)
         \<and> or_else (msg_text (store a)) (plaintext mc) = msg_text (store a))"
proof -
  let ?m = "(store a)\<lparr>msg_transporter := None,
            msg_subject := or_else (msg_subject (store a)) (subject mc),
            msg_html := or_else (msg_html (store a)) (html mc),
            msg_text := or_else (msg_text (store a)) (plaintext mc)\<rparr>"
  have "\<exists>cfg. json_copy (case msg_transporter (store a) of
                                Some c \<Rightarrow> Some c
                              | None \<Rightarrow> transporter (opts st)) = Inr cfg"
    using assms(2)
    by (cases "msg_transporter (store a)"; cases "transporter (opts st)")
      (simp_all add: json_copy_def)
  then obtain cfg where cfg: "json_copy (case msg_transporter (store a) of
                                Some c \<Rightarrow> Some c
                              | None \<Rightarrow> transporter (opts st)) = Inr cfg"
    by blast
  have st: "send_store (send render htmlToText sendMail st store (Some ops) (Some a) True)
      = store(a := ?m)"
    using assms(1,3) cfg by (simp add: send_def Let_def split: sum.splits)
  have tc: "transport_calls (send render htmlToText sendMail st store (Some ops) (Some a) True)
      = [(cfg, a, ?m)]"
    using assms(1,3) cfg by (simp add: send_def Let_def split: sum.splits)
  have eq: "?m = store a \<longleftrightarrow> msg_transporter (store a) = None
         \<and> or_else (msg_subject (store a)) (subject mc) = msg_subject (store a)
         \<and> or_else (msg_html (store a)) (html mc) = msg_html (store a)
         \<and> or_else (msg_text (store a)) (plaintext mc) = msg_text (store a)"
    by (cases "store a") auto
  show ?thesis using st tc eq by simp
qed

theorem send_mutates_message_witness:
  "send_store (send reference_render (\<lambda>h. h) example_sendMail example_state example_store
       (Some (example_ops ''T1'')) (Some 0) True) 0
     = \<lparr>msg_to = Some ''a@example.org'', msg_transporter = None,
        msg_subject = Some ''{{data.x}}'', msg_html = Some ''{{data.x}}'',
        msg_text = Some ''{{data.x}}''\<rparr>
   \<and> send_store (send reference_render (\<lambda>h. h) example_sendMail example_state example_store
       (Some (example_ops ''T1'')) (Some 0) True) 0 \<noteq> example_store 0
   \<and> send_store (send reference_render (\<lambda>h. h) example_sendMail example_state example_store
       (Some (example_ops ''T1'')) (Some 0) True) 1 = example_store 1"
  using send_mutates_message [of example_store 0 example_state reference_render "\<lambda>h. h"
      "example_ops ''T1''" "\<lparr>subject = Some ''{{data.x}}'', html = Some ''{{data.x}}'',
          plaintext = Some ''{{data.x}}''\<rparr>" "[]" example_sendMail]
  by (simp add: example_getTemplate_T1 example_store_def)

end
